theory Spec2Isabelle
  imports Complex_Main "HOL-Library.Log_Nat"
begin

section \<open>Plane changes of fabric.js (src/util/misc/planeChange.ts)\<close>

text \<open>
  The module moves points and scene objects between coordinate planes.  Its numbers are
  IEEE 754 doubles.  The functions are given twice.  First with exact arithmetic on real
  numbers: this is enough for everything that does not depend on rounding (which branch
  is taken, which arguments are read, what is written and returned).  Then, under the
  names ending in \<open>64\<close>, with every arithmetic operation rounded as the program rounds
  it: this is what decides a law that needs an inverse to cancel.
\<close>

subsection \<open>Matrix algebra and points\<close>

text \<open>
  Modelled from the spec: the type \<open>TMat2D\<close> of \<open>typedefs\<close> is missing; the spec has an
  affine matrix hold 6 numeric coefficients, the linear part and the translation of a 2D
  affine map.  The constructor takes them in the order of the array
  \<open>[t0, t1, t2, t3, t4, t5]\<close>: \<open>t0 .. t3\<close> are the linear part, \<open>t4, t5\<close> the translation.
  A coefficient is a real number; the program's are the real numbers that are doubles,
  and what its arithmetic makes of them is given with the functions in double arithmetic.
\<close>

datatype TMat2D = TMat2D real real real real real real

text \<open>
  Modelled from the spec: the constant \<open>iMatrix\<close> of \<open>constants\<close> is missing; the
  spec calls it the identity matrix, the default for "no transform".
\<close>

definition iMatrix :: TMat2D where
  "iMatrix = TMat2D 1 0 0 1 0 0"

text \<open>
  Modelled from the spec: \<open>multiplyTransformMatrices\<close> of \<open>util/misc/matrix\<close> is
  missing; the spec gives \<open>multiply(A, B) = A \<cdot> B\<close>, the composition of affine maps
  that applies \<open>B\<close> first.
\<close>

fun multiplyTransformMatrices :: "TMat2D \<Rightarrow> TMat2D \<Rightarrow> TMat2D" where
  "multiplyTransformMatrices (TMat2D a0 a1 a2 a3 a4 a5) (TMat2D b0 b1 b2 b3 b4 b5) =
     TMat2D (a0 * b0 + a2 * b1) (a1 * b0 + a3 * b1)
            (a0 * b2 + a2 * b3) (a1 * b2 + a3 * b3)
            (a0 * b4 + a2 * b5 + a4) (a1 * b4 + a3 * b5 + a5)"

text \<open>
  The determinant of the linear part, for the statements: a matrix is invertible when it
  is not zero.
\<close>

fun determinant :: "TMat2D \<Rightarrow> real" where
  "determinant (TMat2D t0 t1 t2 t3 t4 t5) = t0 * t3 - t1 * t2"

text \<open>
  Modelled from the spec: \<open>invertTransform\<close> of \<open>util/misc/matrix\<close> is missing; the
  spec gives \<open>invert(M) = M\<^sup>-\<^sup>1\<close>, failing or undefined on a singular \<open>M\<close>.  \<open>None\<close> is
  that undefined result, which no matrix of real numbers stands for.
\<close>

fun invertTransform :: "TMat2D \<Rightarrow> TMat2D option" where
  "invertTransform (TMat2D t0 t1 t2 t3 t4 t5) =
     (if t0 * t3 - t1 * t2 = 0 then None
      else let a = 1 / (t0 * t3 - t1 * t2) in
        Some (TMat2D (a * t3) (- a * t1) (- a * t2) (a * t0)
                     (- (a * t3 * t4 - a * t2 * t5)) (- (- a * t1 * t4 + a * t0 * t5))))"

text \<open>
  Modelled from the spec: the class \<open>Point\<close> of \<open>point.class\<close> is missing; a point has
  two coordinates.
\<close>

datatype Point = Point real real

text \<open>
  Modelled from the spec: the method \<open>transform\<close> of \<open>point.class\<close> is missing; the
  spec has it apply the affine matrix to the point.
\<close>

fun transform :: "Point \<Rightarrow> TMat2D \<Rightarrow> Point" where
  "transform (Point x y) (TMat2D t0 t1 t2 t3 t4 t5) =
     Point (t0 * x + t2 * y + t4) (t1 * x + t3 * y + t5)"

subsection \<open>calcPlaneChangeMatrix, sendPointToPlane\<close>

text \<open>
  A parameter with a default value takes the default when the argument is omitted or
  \<open>undefined\<close>: the argument is an \<open>option\<close>, and \<open>None\<close> is the omitted one.
\<close>

definition orDefault :: "'a \<Rightarrow> 'a option \<Rightarrow> 'a" where
  "orDefault d arg = (case arg of None \<Rightarrow> d | Some v \<Rightarrow> v)"

definition calcPlaneChangeMatrix :: "TMat2D option \<Rightarrow> TMat2D option \<Rightarrow> TMat2D option" where
  "calcPlaneChangeMatrix from to =
     map_option (\<lambda>inv. multiplyTransformMatrices inv (orDefault iMatrix from))
       (invertTransform (orDefault iMatrix to))"

definition sendPointToPlane :: "Point \<Rightarrow> TMat2D option \<Rightarrow> TMat2D option \<Rightarrow> Point option" where
  "sendPointToPlane point from to =
     map_option (transform point)
       (calcPlaneChangeMatrix (Some (orDefault iMatrix from)) (Some (orDefault iMatrix to)))"

subsection \<open>transformPointRelativeToCanvas\<close>

text \<open>
  \<open>ObjectRelation\<close> is a const enum of strings.  At run time a caller can pass any
  string, which is what the function's two checks are for, so the relation arguments are
  strings.
\<close>

definition ObjectRelation_sibling :: string where
  "ObjectRelation_sibling = ''sibling''"

definition ObjectRelation_child :: string where
  "ObjectRelation_child = ''child''"

datatype error = Error string

text \<open>
  Modelled from the spec: the type \<open>StaticCanvas\<close> is missing; the spec has the root
  context expose exactly one transform, which the source reads as \<open>viewportTransform\<close>.
\<close>

record StaticCanvas =
  viewportTransform :: TMat2D

text \<open>
  The result is \<open>Inl\<close> of the thrown error, or \<open>Inr\<close> of the returned point; the point
  is \<open>None\<close> where the viewport transform had to be inverted and is singular.
\<close>

definition transformPointRelativeToCanvas ::
    "Point \<Rightarrow> StaticCanvas \<Rightarrow> string \<Rightarrow> string \<Rightarrow> error + Point option" where
  "transformPointRelativeToCanvas point canvas relationBefore relationAfter =
     (if relationBefore \<noteq> ObjectRelation_child \<and> relationBefore \<noteq> ObjectRelation_sibling
      then Inl (Error (''fabric.js: received bad argument '' @ relationBefore))
      else if relationAfter \<noteq> ObjectRelation_child \<and> relationAfter \<noteq> ObjectRelation_sibling
      then Inl (Error (''fabric.js: received bad argument '' @ relationAfter))
      else if relationBefore = relationAfter then Inr (Some point)
      else let t = viewportTransform canvas in
        Inr (map_option (transform point)
               (if relationAfter = ''child'' then invertTransform t else Some t)))"

subsection \<open>Scene objects and sendObjectToPlane\<close>

text \<open>
  Objects are mutable and shared (an object's group is a reference to another object), so
  they live in a store, addressed by reference; a call that mutates an object returns the
  updated store.
\<close>

type_synonym ref = nat

text \<open>
  Modelled from the spec: the class \<open>FabricObject\<close> of \<open>shapes/fabricObject.class\<close> is
  missing; the spec has a scene node carry a local transform (position, scale, skew and an
  angle) and an optional parent group, and expose its own local matrix, its cumulative
  transform and its cumulative angle.  \<open>ownMatrix\<close> stands for the position, scale and
  skew fields, by the local matrix they compose to; \<open>planeMatrix\<close> and \<open>totalAngle\<close> are
  the cumulative readings, which the scene supplies.
\<close>

record FabricObject =
  ownMatrix :: TMat2D
  angle :: real
  group :: "ref option"
  planeMatrix :: TMat2D
  totalAngle :: real

type_synonym store = "ref \<Rightarrow> FabricObject"

text \<open>
  Modelled from the spec: the class \<open>FabricObject\<close> is missing; the spec has a node
  expose its own local matrix, composed from its position, scale and skew fields.
  The field \<open>ownMatrix\<close> stands for those fields, by the matrix they compose to.
\<close>

definition calcOwnMatrix :: "FabricObject \<Rightarrow> TMat2D" where
  "calcOwnMatrix obj = ownMatrix obj"

text \<open>
  Modelled from the spec: the class \<open>FabricObject\<close> is missing; the spec has a node
  expose its cumulative transform from the root to itself, obtained externally.  The
  field \<open>planeMatrix\<close> is that reading at the time of the call.
\<close>

definition calcTransformMatrix :: "FabricObject \<Rightarrow> TMat2D" where
  "calcTransformMatrix obj = planeMatrix obj"

text \<open>
  Modelled from the spec: the class \<open>FabricObject\<close> is missing; the spec has a node
  expose its cumulative rotation angle from the root to itself.  The field
  \<open>totalAngle\<close> is that reading at the time of the call.
\<close>

definition getTotalAngle :: "FabricObject \<Rightarrow> real" where
  "getTotalAngle obj = totalAngle obj"

text \<open>
  Modelled from the spec: \<open>applyTransformToObject\<close> of \<open>util/misc/objectTransforms\<close>
  is missing; the spec has it decompose the matrix back into the node's position, scale
  and skew fields and assign the given angle, mutating the node in place.
\<close>

definition applyTransformToObject :: "store \<Rightarrow> ref \<Rightarrow> TMat2D \<Rightarrow> real \<Rightarrow> store" where
  "applyTransformToObject s object m a =
     s(object := (s object)\<lparr>ownMatrix := m, angle := a\<rparr>)"

text \<open>
  \<open>args\<close> are the arguments of a call after \<open>object\<close>, so that \<open>arguments.length\<close> is
  \<open>Suc (length args)\<close>; a parameter beyond the arguments passed is \<open>undefined\<close>.
\<close>

definition argument :: "'a option list \<Rightarrow> nat \<Rightarrow> 'a option" where
  "argument args i = (if i < length args then args ! i else None)"

text \<open>
  \<open>v || 0\<close>: \<open>undefined\<close> and \<open>0\<close> are falsy.
\<close>

definition orZero :: "real option \<Rightarrow> real" where
  "orZero v = (case v of None \<Rightarrow> 0 | Some a \<Rightarrow> if a = 0 then 0 else a)"

text \<open>
  The result is the updated store and the returned \<open>{ transform, angle }\<close>, or \<open>None\<close>
  where the destination's matrix is singular.
\<close>

definition sendObjectToPlane ::
    "store \<Rightarrow> ref \<Rightarrow> ref option list \<Rightarrow> (store \<times> TMat2D \<times> real) option" where
  "sendObjectToPlane s object args =
     (let arg1 = argument args 0;
          arg2 = argument args 1;
          (from, to) =
            (if Suc (length args) = 3 then (arg1, arg2) else (group (s object), arg1));
          t = calcPlaneChangeMatrix
                (map_option (\<lambda>r. calcTransformMatrix (s r)) from)
                (map_option (\<lambda>r. calcTransformMatrix (s r)) to);
          angle' = angle (s object)
                   - orZero (map_option (\<lambda>r. getTotalAngle (s r)) from)
                   + orZero (map_option (\<lambda>r. getTotalAngle (s r)) to)
      in map_option
           (\<lambda>t. (applyTransformToObject s object
                    (multiplyTransformMatrices t (calcOwnMatrix (s object))) angle',
                  t, angle'))
           t)"

subsection \<open>Readings used by the statements\<close>

text \<open>
  The matrix of a plane given by an optional node: the node's cumulative transform,
  the identity for an absent node (the canvas).
\<close>

definition plane :: "store \<Rightarrow> ref option \<Rightarrow> TMat2D" where
  "plane s node = (case node of None \<Rightarrow> iMatrix | Some r \<Rightarrow> calcTransformMatrix (s r))"

text \<open>
  The cumulative angle of an optional node, 0 for an absent one.
\<close>

definition planeAngle :: "store \<Rightarrow> ref option \<Rightarrow> real" where
  "planeAngle s node = (case node of None \<Rightarrow> 0 | Some r \<Rightarrow> getTotalAngle (s r))"

text \<open>
  The local matrix of an object after a call of \<open>sendObjectToPlane\<close>, read from the
  store the call returns.
\<close>

definition localMatrixAfter :: "(store \<times> TMat2D \<times> real) option \<Rightarrow> ref \<Rightarrow> TMat2D option" where
  "localMatrixAfter result object = map_option (\<lambda>(s', r). calcOwnMatrix (s' object)) result"

subsection \<open>An example scene\<close>

text \<open>
  Object 0 sits at (50, 50) inside group 1, which translates by (30, 30); group 2 is
  another plane, rotated by 90 degrees and translated by (5, 7).  Every other reference
  is an untransformed object on the canvas.
\<close>

definition exampleScene :: store where
  "exampleScene =
     (\<lambda>_. \<lparr>ownMatrix = iMatrix, angle = 0, group = None,
            planeMatrix = iMatrix, totalAngle = 0\<rparr>)
     (0 := \<lparr>ownMatrix = TMat2D 1 0 0 1 50 50, angle = 0, group = Some 1,
            planeMatrix = TMat2D 1 0 0 1 80 80, totalAngle = 0\<rparr>,
      1 := \<lparr>ownMatrix = TMat2D 1 0 0 1 30 30, angle = 0, group = None,
            planeMatrix = TMat2D 1 0 0 1 30 30, totalAngle = 0\<rparr>,
      2 := \<lparr>ownMatrix = TMat2D 0 1 (-1) 0 5 7, angle = 90, group = None,
            planeMatrix = TMat2D 0 1 (-1) 0 5 7, totalAngle = 90\<rparr>)"

subsection \<open>Double arithmetic\<close>

text \<open>
  A finite double is a real number with a significand of 53 bits.  An arithmetic
  operation of the program returns the exact result rounded to the nearest such number,
  a tie going to the even significand.  \<open>binade x\<close> is the exponent \<open>e\<close> with
  \<open>2\<^sup>e \<le> \<bar>x\<bar> < 2\<^sup>e\<^sup>+\<^sup>1\<close>, so that the doubles around \<open>x\<close> are the multiples of
  \<open>2\<^sup>e\<^sup>-\<^sup>5\<^sup>2\<close>.  The two zeros are one number here, and the exponent is not bounded:
  overflow to infinity, subnormal numbers and NaN are not modelled, so the functions
  below compute what the program computes as long as every intermediate result is zero
  or has a magnitude in the normal range of doubles.
\<close>

definition roundEven :: "real \<Rightarrow> int" where
  "roundEven x =
     (let n = \<lfloor>x\<rfloor>; r = x - of_int n
      in if r < 1 / 2 then n else if 1 / 2 < r then n + 1 else if even n then n else n + 1)"

definition binade :: "real \<Rightarrow> int" where
  "binade x =
     (if 1 \<le> \<bar>x\<bar> then bitlen \<lfloor>\<bar>x\<bar>\<rfloor> - 1 else - bitlen (\<lceil>1 / \<bar>x\<bar>\<rceil> - 1))"

definition round64 :: "real \<Rightarrow> real" where
  "round64 x =
     (if x = 0 then 0
      else let e = binade x - 52
           in if 0 \<le> e then of_int (roundEven (x / 2 ^ nat e)) * 2 ^ nat e
              else of_int (roundEven (x * 2 ^ nat (- e))) / 2 ^ nat (- e))"

definition add64 :: "real \<Rightarrow> real \<Rightarrow> real" where
  "add64 x y = round64 (x + y)"

definition sub64 :: "real \<Rightarrow> real \<Rightarrow> real" where
  "sub64 x y = round64 (x - y)"

definition mul64 :: "real \<Rightarrow> real \<Rightarrow> real" where
  "mul64 x y = round64 (x * y)"

definition div64 :: "real \<Rightarrow> real \<Rightarrow> real" where
  "div64 x y = round64 (x / y)"

text \<open>
  Modelled from the spec: \<open>multiplyTransformMatrices\<close> is missing; this is the product
  above with each operation rounded, sums taken from left to right.
\<close>

fun multiplyTransformMatrices64 :: "TMat2D \<Rightarrow> TMat2D \<Rightarrow> TMat2D" where
  "multiplyTransformMatrices64 (TMat2D a0 a1 a2 a3 a4 a5) (TMat2D b0 b1 b2 b3 b4 b5) =
     TMat2D (add64 (mul64 a0 b0) (mul64 a2 b1)) (add64 (mul64 a1 b0) (mul64 a3 b1))
            (add64 (mul64 a0 b2) (mul64 a2 b3)) (add64 (mul64 a1 b2) (mul64 a3 b3))
            (add64 (add64 (mul64 a0 b4) (mul64 a2 b5)) a4)
            (add64 (add64 (mul64 a1 b4) (mul64 a3 b5)) a5)"

text \<open>
  Modelled from the spec: \<open>invertTransform\<close> is missing; this is the inverse above with
  each operation rounded, products taken from left to right.  It is undefined where the
  determinant, as the program computes it, is zero.
\<close>

fun invertTransform64 :: "TMat2D \<Rightarrow> TMat2D option" where
  "invertTransform64 (TMat2D t0 t1 t2 t3 t4 t5) =
     (if sub64 (mul64 t0 t3) (mul64 t1 t2) = 0 then None
      else let a = div64 1 (sub64 (mul64 t0 t3) (mul64 t1 t2)) in
        Some (TMat2D (mul64 a t3) (mul64 (- a) t1) (mul64 (- a) t2) (mul64 a t0)
                     (- (sub64 (mul64 (mul64 a t3) t4) (mul64 (mul64 a t2) t5)))
                     (- (add64 (mul64 (mul64 (- a) t1) t4) (mul64 (mul64 a t0) t5)))))"

definition calcPlaneChangeMatrix64 :: "TMat2D option \<Rightarrow> TMat2D option \<Rightarrow> TMat2D option" where
  "calcPlaneChangeMatrix64 from to =
     map_option (\<lambda>inv. multiplyTransformMatrices64 inv (orDefault iMatrix from))
       (invertTransform64 (orDefault iMatrix to))"

definition sendObjectToPlane64 ::
    "store \<Rightarrow> ref \<Rightarrow> ref option list \<Rightarrow> (store \<times> TMat2D \<times> real) option" where
  "sendObjectToPlane64 s object args =
     (let arg1 = argument args 0;
          arg2 = argument args 1;
          (from, to) =
            (if Suc (length args) = 3 then (arg1, arg2) else (group (s object), arg1));
          t = calcPlaneChangeMatrix64
                (map_option (\<lambda>r. calcTransformMatrix (s r)) from)
                (map_option (\<lambda>r. calcTransformMatrix (s r)) to);
          angle' = add64
                     (sub64 (angle (s object))
                        (orZero (map_option (\<lambda>r. getTotalAngle (s r)) from)))
                     (orZero (map_option (\<lambda>r. getTotalAngle (s r)) to))
      in map_option
           (\<lambda>t. (applyTransformToObject s object
                    (multiplyTransformMatrices64 t (calcOwnMatrix (s object))) angle',
                  t, angle'))
           t)"


section \<open>Matrix algebra: the laws the module relies on\<close>

lemma multiply_iMatrix_left: "multiplyTransformMatrices iMatrix m = m"
  by (cases m) (simp add: iMatrix_def)

lemma multiply_iMatrix_right: "multiplyTransformMatrices m iMatrix = m"
  by (cases m) (simp add: iMatrix_def)


lemma invertTransform_iMatrix: "invertTransform iMatrix = Some iMatrix"
  by (simp add: iMatrix_def)

lemma invertTransform_None_iff: "invertTransform m = None \<longleftrightarrow> determinant m = 0"
  by (cases m) (simp add: Let_def)

lemma inverse_entries:
  fixes a :: real
  assumes ad: "a * (t0 * t3 - t1 * t2) = 1"
  shows "a * t3 * t0 + - a * t2 * t1 = 1"
    and "- a * t1 * t0 + a * t0 * t1 = 0"
    and "a * t3 * t2 + - a * t2 * t3 = 0"
    and "- a * t1 * t2 + a * t0 * t3 = 1"
    and "a * t3 * t4 + - a * t2 * t5 + - (a * t3 * t4 - a * t2 * t5) = 0"
    and "- a * t1 * t4 + a * t0 * t5 + - (- a * t1 * t4 + a * t0 * t5) = 0"
    and "t0 * (a * t3) + t2 * (- a * t1) = 1"
    and "t1 * (a * t3) + t3 * (- a * t1) = 0"
    and "t0 * (- a * t2) + t2 * (a * t0) = 0"
    and "t1 * (- a * t2) + t3 * (a * t0) = 1"
    and "t0 * (- (a * t3 * t4 - a * t2 * t5)) + t2 * (- (- a * t1 * t4 + a * t0 * t5)) + t4 = 0"
    and "t1 * (- (a * t3 * t4 - a * t2 * t5)) + t3 * (- (- a * t1 * t4 + a * t0 * t5)) + t5 = 0"
proof -
  have e1: "a * t0 * t3 - a * t1 * t2 = 1"
    using ad by (simp add: algebra_simps)
  show "a * t3 * t0 + - a * t2 * t1 = 1" using e1 by (simp add: algebra_simps)
  show "- a * t1 * t0 + a * t0 * t1 = 0" by simp
  show "a * t3 * t2 + - a * t2 * t3 = 0" by simp
  show "- a * t1 * t2 + a * t0 * t3 = 1" using e1 by (simp add: algebra_simps)
  show "a * t3 * t4 + - a * t2 * t5 + - (a * t3 * t4 - a * t2 * t5) = 0" by simp
  show "- a * t1 * t4 + a * t0 * t5 + - (- a * t1 * t4 + a * t0 * t5) = 0" by simp
  show "t0 * (a * t3) + t2 * (- a * t1) = 1" using e1 by (simp add: algebra_simps)
  show "t1 * (a * t3) + t3 * (- a * t1) = 0" by simp
  show "t0 * (- a * t2) + t2 * (a * t0) = 0" by simp
  show "t1 * (- a * t2) + t3 * (a * t0) = 1" using e1 by (simp add: algebra_simps)
  have "t0 * (- (a * t3 * t4 - a * t2 * t5)) + t2 * (- (- a * t1 * t4 + a * t0 * t5)) + t4
      = t4 * (1 - (a * t0 * t3 - a * t1 * t2))"
    by (simp add: algebra_simps)
  then show "t0 * (- (a * t3 * t4 - a * t2 * t5)) + t2 * (- (- a * t1 * t4 + a * t0 * t5)) + t4 = 0"
    using e1 by simp
  have "t1 * (- (a * t3 * t4 - a * t2 * t5)) + t3 * (- (- a * t1 * t4 + a * t0 * t5)) + t5
      = t5 * (1 - (a * t0 * t3 - a * t1 * t2))"
    by (simp add: algebra_simps)
  then show "t1 * (- (a * t3 * t4 - a * t2 * t5)) + t3 * (- (- a * t1 * t4 + a * t0 * t5)) + t5 = 0"
    using e1 by simp
qed

lemma invertTransform_Some:
  assumes "invertTransform (TMat2D t0 t1 t2 t3 t4 t5) = Some i"
  shows "\<exists>a. a * (t0 * t3 - t1 * t2) = 1 \<and>
    i = TMat2D (a * t3) (- a * t1) (- a * t2) (a * t0)
               (- (a * t3 * t4 - a * t2 * t5)) (- (- a * t1 * t4 + a * t0 * t5))"
proof -
  from assms have d: "t0 * t3 - t1 * t2 \<noteq> 0"
    by (auto split: if_splits)
  let ?a = "1 / (t0 * t3 - t1 * t2)"
  have "?a * (t0 * t3 - t1 * t2) = 1" using d by simp
  moreover from assms d have "i = TMat2D (?a * t3) (- ?a * t1) (- ?a * t2) (?a * t0)
                     (- (?a * t3 * t4 - ?a * t2 * t5)) (- (- ?a * t1 * t4 + ?a * t0 * t5))"
    by (simp add: Let_def)
  ultimately show ?thesis by blast
qed

lemma invertTransform_left:
  assumes "invertTransform m = Some i"
  shows "multiplyTransformMatrices i m = iMatrix"
proof (cases m)
  case (TMat2D t0 t1 t2 t3 t4 t5)
  from invertTransform_Some [OF assms [unfolded TMat2D]]
  obtain a where ad: "a * (t0 * t3 - t1 * t2) = 1"
    and i: "i = TMat2D (a * t3) (- a * t1) (- a * t2) (a * t0)
                     (- (a * t3 * t4 - a * t2 * t5)) (- (- a * t1 * t4 + a * t0 * t5))"
    by blast
  show ?thesis
    unfolding i TMat2D iMatrix_def multiplyTransformMatrices.simps
    using inverse_entries(1-6)[OF ad] by simp
qed


lemma determinant_multiply:
  "determinant (multiplyTransformMatrices p q) = determinant p * determinant q"
  by (cases p, cases q) (simp add: algebra_simps)

lemma determinant_iMatrix: "determinant iMatrix = 1"
  by (simp add: iMatrix_def)

lemma invertTransform_defined:
  "determinant m \<noteq> 0 \<Longrightarrow> \<exists>i. invertTransform m = Some i"
  using invertTransform_None_iff [of m] by (cases "invertTransform m") auto

lemma determinant_nonzero_iff:
  "determinant m \<noteq> 0 \<longleftrightarrow> (\<exists>i. multiplyTransformMatrices i m = iMatrix)"
proof
  assume "determinant m \<noteq> 0"
  then obtain i where "invertTransform m = Some i"
    using invertTransform_defined by blast
  then show "\<exists>i. multiplyTransformMatrices i m = iMatrix"
    using invertTransform_left by blast
next
  assume "\<exists>i. multiplyTransformMatrices i m = iMatrix"
  then obtain i where "multiplyTransformMatrices i m = iMatrix" ..
  then have "determinant i * determinant m = 1"
    using determinant_multiply [of i m] determinant_iMatrix by simp
  then show "determinant m \<noteq> 0" by auto
qed

lemma calcPlaneChangeMatrix_singular:
  "determinant B = 0 \<Longrightarrow> calcPlaneChangeMatrix from (Some B) = None"
  by (simp add: calcPlaneChangeMatrix_def orDefault_def invertTransform_None_iff)

section \<open>Double arithmetic: the rounding\<close>

text \<open>
  For \<open>x \<noteq> 0\<close> with \<open>e = binade x\<close>: \<open>2\<^sup>e \<le> \<bar>x\<bar> < 2\<^sup>e\<^sup>+\<^sup>1\<close>; \<open>round64 x\<close> is \<open>m \<times> 2\<^sup>e\<^sup>-\<^sup>5\<^sup>2\<close> for
  an integer \<open>m\<close> with \<open>2\<^sup>5\<^sup>2 \<le> \<bar>m\<bar> \<le> 2\<^sup>5\<^sup>3\<close>, at most half of \<open>2\<^sup>e\<^sup>-\<^sup>5\<^sup>2\<close> away from \<open>x\<close>; and
  on a tie \<open>m\<close> is even.
\<close>

lemma roundEven_nearest: "\<bar>of_int (roundEven x) - x\<bar> \<le> 1 / 2"
  unfolding roundEven_def Let_def by (auto; linarith)

lemma roundEven_tie:
  "x - of_int \<lfloor>x\<rfloor> = 1 / 2 \<Longrightarrow> even (roundEven x)"
  unfolding roundEven_def Let_def by auto

lemma binade_bounds:
  assumes "x \<noteq> 0"
  shows "2 powi binade x \<le> \<bar>x\<bar> \<and> \<bar>x\<bar> < 2 powi (binade x + 1)"
proof (cases "1 \<le> \<bar>x\<bar>")
  case True
  define n where "n = \<lfloor>\<bar>x\<bar>\<rfloor>"
  have n: "0 < n" "of_int n \<le> \<bar>x\<bar>" "\<bar>x\<bar> < of_int n + 1"
    using True by (auto simp: n_def)
  have b: "1 \<le> bitlen n"
    using n(1) by (simp add: bitlen_alt_def)
  from bitlen_bounds [OF n(1)]
  have lo: "2 ^ nat (bitlen n - 1) \<le> n" and hi: "n + 1 \<le> 2 ^ nat (bitlen n)"
    by auto
  have e: "binade x = bitlen n - 1"
    using True by (simp add: binade_def n_def)
  have "(2::real) powi (bitlen n - 1) = 2 ^ nat (bitlen n - 1)"
    using b by (simp add: power_int_def)
  also have "\<dots> \<le> of_int n"
    using lo by (metis of_int_le_iff of_int_numeral of_int_power)
  finally have 1: "2 powi binade x \<le> \<bar>x\<bar>"
    using n(2) e by simp
  have "\<bar>x\<bar> < of_int (n + 1)"
    using n(3) by simp
  also have "\<dots> \<le> (2::real) ^ nat (bitlen n)"
    using hi by (metis of_int_le_iff of_int_numeral of_int_power)
  also have "\<dots> = 2 powi (bitlen n)"
    using b by (simp add: power_int_def)
  finally have 2: "\<bar>x\<bar> < 2 powi (binade x + 1)"
    using e by simp
  from 1 2 show ?thesis ..
next
  case False
  define y where "y = 1 / \<bar>x\<bar>"
  define m where "m = \<lceil>y\<rceil> - 1"
  have x: "0 < \<bar>x\<bar>" "\<bar>x\<bar> < 1"
    using assms False by auto
  have y: "1 < y" "\<bar>x\<bar> = 1 / y" "0 < y"
    using x by (auto simp: y_def)
  have m: "0 < m" "of_int m < y" "y \<le> of_int m + 1"
    using y(1) by (auto simp: m_def) linarith+
  have k: "1 \<le> bitlen m"
    using m(1) by (simp add: bitlen_alt_def)
  from bitlen_bounds [OF m(1)]
  have lo: "2 ^ nat (bitlen m - 1) \<le> m" and hi: "m + 1 \<le> 2 ^ nat (bitlen m)"
    by auto
  have e: "binade x = - bitlen m"
    using False by (simp add: binade_def m_def y_def)
  have "y \<le> of_int (m + 1)"
    using m(3) by simp
  also have "\<dots> \<le> (2::real) ^ nat (bitlen m)"
    using hi by (metis of_int_le_iff of_int_numeral of_int_power)
  finally have "1 / 2 ^ nat (bitlen m) \<le> 1 / y"
    using y(3) by (simp add: frac_le)
  moreover have "(2::real) powi (- bitlen m) = 1 / 2 ^ nat (bitlen m)"
    using k by (simp add: power_int_def field_simps)
  ultimately have 1: "2 powi binade x \<le> \<bar>x\<bar>"
    using e y(2) by simp
  have "(2::real) ^ nat (bitlen m - 1) \<le> of_int m"
    using lo by (metis of_int_le_iff of_int_numeral of_int_power)
  also have "\<dots> < y"
    by (rule m(2))
  finally have "1 / y < 1 / 2 ^ nat (bitlen m - 1)"
    by (simp add: frac_less2)
  moreover have "(2::real) powi (- bitlen m + 1) = 1 / 2 ^ nat (bitlen m - 1)"
    using k by (simp add: power_int_def field_simps) 
  ultimately have 2: "\<bar>x\<bar> < 2 powi (binade x + 1)"
    using e y(2) by simp
  from 1 2 show ?thesis ..
qed


lemma round64_powi:
  assumes "x \<noteq> 0"
  shows "round64 x =
    of_int (roundEven (x / 2 powi (binade x - 52))) * 2 powi (binade x - 52)"
proof (cases "0 \<le> binade x - 52")
  case True
  then have "(2::real) powi (binade x - 52) = 2 ^ nat (binade x - 52)"
    by (simp add: power_int_def)
  with assms True show ?thesis
    by (simp add: round64_def Let_def)
next
  case False
  then have "(2::real) powi (binade x - 52) = 1 / 2 ^ nat (- (binade x - 52))"
    by (simp add: power_int_def field_simps)
  with assms False show ?thesis
    by (simp add: round64_def Let_def)
qed

lemma round64_nearest:
  assumes "x \<noteq> 0"
  shows "\<bar>round64 x - x\<bar> \<le> 2 powi (binade x - 52) / 2"
proof -
  define u :: real where "u = 2 powi (binade x - 52)"
  have u: "0 < u"
    by (simp add: u_def)
  have "round64 x - x = (of_int (roundEven (x / u)) - x / u) * u"
    using u by (simp add: round64_powi [OF assms] u_def field_simps)
  then have "\<bar>round64 x - x\<bar> = \<bar>of_int (roundEven (x / u)) - x / u\<bar> * u"
    using u by (simp add: abs_mult)
  also have "\<dots> \<le> 1 / 2 * u"
    using u roundEven_nearest [of "x / u"] by (intro mult_right_mono) auto
  finally show ?thesis
    by (simp add: u_def)
qed

lemma significand_bounds:
  assumes "x \<noteq> 0"
  shows "2 ^ 52 \<le> \<bar>x / 2 powi (binade x - 52)\<bar> \<and> \<bar>x / 2 powi (binade x - 52)\<bar> < 2 ^ 53"
proof -
  define u :: real where "u = 2 powi (binade x - 52)"
  have u: "0 < u"
    by (simp add: u_def)
  have lo: "2 powi binade x = 2 ^ 52 * u"
    by (simp add: u_def power_int_diff)
  have hi: "2 powi (binade x + 1) = 2 ^ 53 * u"
    by (simp add: u_def power_int_diff power_int_add)
  from binade_bounds [OF assms] lo hi
  have "2 ^ 52 * u \<le> \<bar>x\<bar>" and "\<bar>x\<bar> < 2 ^ 53 * u"
    by simp_all
  then have "2 ^ 52 \<le> \<bar>x\<bar> / u" and "\<bar>x\<bar> / u < 2 ^ 53"
    using u by (simp_all add: field_simps)
  then show ?thesis
    using u by (simp add: u_def)
qed

lemma roundEven_range: "\<lfloor>z\<rfloor> \<le> roundEven z \<and> roundEven z \<le> \<lceil>z\<rceil>"
proof -
  have "z - of_int \<lfloor>z\<rfloor> \<noteq> 0 \<Longrightarrow> \<lceil>z\<rceil> = \<lfloor>z\<rfloor> + 1"
    by (simp add: ceiling_altdef)
  then show ?thesis
    unfolding roundEven_def Let_def by auto
qed

lemma round64_significand:
  assumes "x \<noteq> 0"
  shows "2 ^ 52 \<le> \<bar>roundEven (x / 2 powi (binade x - 52))\<bar>
       \<and> \<bar>roundEven (x / 2 powi (binade x - 52))\<bar> \<le> 2 ^ 53"
proof -
  define z where "z = x / 2 powi (binade x - 52)"
  from significand_bounds [OF assms] have z: "2 ^ 52 \<le> \<bar>z\<bar>" "\<bar>z\<bar> < 2 ^ 53"
    by (simp_all add: z_def)
  have r: "\<lfloor>z\<rfloor> \<le> roundEven z" "roundEven z \<le> \<lceil>z\<rceil>"
    using roundEven_range [of z] by simp_all
  have p: "(0::int) < 2 ^ 52" "(2::int) ^ 52 \<le> 2 ^ 53"
    by simp_all
  have "2 ^ 52 \<le> \<bar>roundEven z\<bar> \<and> \<bar>roundEven z\<bar> \<le> 2 ^ 53"
  proof (cases "0 \<le> z")
    case True
    with z have "2 ^ 52 \<le> \<lfloor>z\<rfloor>" and "\<lceil>z\<rceil> \<le> 2 ^ 53"
      by (simp_all add: le_floor_iff ceiling_le_iff)
    with r p show ?thesis
      by linarith
  next
    case False
    with z have "\<lceil>z\<rceil> \<le> - (2 ^ 52)" and "- (2 ^ 53) \<le> \<lfloor>z\<rfloor>"
      by (simp_all add: le_floor_iff ceiling_le_iff)
    with r p show ?thesis
      by linarith
  qed
  then show ?thesis
    by (simp add: z_def)
qed

subsection \<open>Evaluation\<close>

lemma bitlen_One: "bitlen 1 = 1"
  using compute_bitlen [of 1] by simp

lemma bitlen_Bit0: "bitlen (numeral (Num.Bit0 k)) = bitlen (numeral k) + 1"
  using compute_bitlen [of "numeral (Num.Bit0 k)"] by simp

lemma bitlen_Bit1: "bitlen (numeral (Num.Bit1 k)) = bitlen (numeral k) + 1"
  using compute_bitlen [of "numeral (Num.Bit1 k)"] by simp

lemmas eval64 =
  round64_def binade_def roundEven_def add64_def sub64_def mul64_def div64_def
  Let_def bitlen_One bitlen_Bit0 bitlen_Bit1

text \<open>
  Known doubles: 0.2 is \<open>3602879701896397 \<times> 2\<^sup>-\<^sup>5\<^sup>4\<close> and 0.1 is half of it; a tie
  goes to the even significand, so \<open>1 + 2\<^sup>-\<^sup>5\<^sup>3\<close> rounds down to 1, \<open>1 + 3 \<times> 2\<^sup>-\<^sup>5\<^sup>3\<close>
  rounds up to \<open>1 + 2\<^sup>-\<^sup>5\<^sup>1\<close>, and \<open>2\<^sup>5\<^sup>3 + 1\<close> rounds to \<open>2\<^sup>5\<^sup>3\<close>.
\<close>

lemma round64_examples:
  "round64 0 = 0"
  "round64 1 = 1"
  "round64 (- 5) = - 5"
  "round64 (1 / 5) = 3602879701896397 / 2 ^ 54"
  "round64 (1 / 10) = 3602879701896397 / 2 ^ 55"
  "round64 (- (1 / 3)) = - (6004799503160661 / 2 ^ 54)"
  "round64 (1 + 1 / 2 ^ 53) = 1"
  "round64 (1 + 3 / 2 ^ 53) = 1 + 1 / 2 ^ 51"
  "round64 (2 ^ 53 + 1) = 2 ^ 53"
  by (simp_all add: eval64)


text \<open>
  The spec's scenario is exact in double arithmetic as well: the object at (50, 50) in the
  group translating by (30, 30), sent to the canvas, is at (80, 80), and the matrix
  returned is the group's.
\<close>

lemma sendObjectToPlane64_example:
  "localMatrixAfter (sendObjectToPlane64 exampleScene 0 [None]) 0 = Some (TMat2D 1 0 0 1 80 80)"
  "map_option snd (sendObjectToPlane64 exampleScene 0 [None]) = Some (TMat2D 1 0 0 1 30 30, 0)"
  by (simp_all add: localMatrixAfter_def sendObjectToPlane64_def calcPlaneChangeMatrix64_def
      orDefault_def argument_def applyTransformToObject_def orZero_def
      exampleScene_def plane_def planeAngle_def calcTransformMatrix_def getTotalAngle_def
      calcOwnMatrix_def iMatrix_def eval64)

section \<open>calcPlaneChangeMatrix\<close>

text \<open>
  A matrix is invertible when its determinant is not zero (\<open>determinant_nonzero_iff\<close>);
  \<open>invertTransform\<close> is defined exactly there (\<open>invertTransform_None_iff\<close>).
\<close>

text \<open>
  C2: for matrices \<open>A\<close> (from) and \<open>B\<close> (to), \<open>calcPlaneChangeMatrix(A, B)\<close> is
  \<open>multiply(invert(B), A)\<close>, undefined where \<open>invert(B)\<close> is; an omitted argument is taken
  to be the identity matrix, and with no arguments the result is the identity matrix.
\<close>

theorem calcPlaneChangeMatrix_formula:
  "calcPlaneChangeMatrix (Some A) (Some B) =
     map_option (\<lambda>i. multiplyTransformMatrices i A) (invertTransform B)
   \<and> calcPlaneChangeMatrix None (Some B) = calcPlaneChangeMatrix (Some iMatrix) (Some B)
   \<and> calcPlaneChangeMatrix (Some A) None = calcPlaneChangeMatrix (Some A) (Some iMatrix)
   \<and> calcPlaneChangeMatrix None None = calcPlaneChangeMatrix (Some iMatrix) (Some iMatrix)
   \<and> calcPlaneChangeMatrix None None = Some iMatrix"
  by (simp add: calcPlaneChangeMatrix_def orDefault_def invertTransform_iMatrix
      multiply_iMatrix_left)







section \<open>transformPointRelativeToCanvas\<close>

text \<open>
  C5: if \<open>relationBefore\<close> is neither \<open>child\<close> nor \<open>sibling\<close>, the call throws the error
  whose message ends in \<open>relationBefore\<close>; if \<open>relationBefore\<close> is valid and
  \<open>relationAfter\<close> is not, it throws the error whose message ends in \<open>relationAfter\<close>.
  Either way no point is returned, so no transform was applied, and the offending value
  is reported as it was passed.
\<close>

theorem transformPointRelativeToCanvas_bad_relation:
  "(relationBefore \<notin> {''child'', ''sibling''} \<longrightarrow>
      transformPointRelativeToCanvas point canvas relationBefore relationAfter =
        Inl (Error (''fabric.js: received bad argument '' @ relationBefore)))
   \<and> (relationBefore \<in> {''child'', ''sibling''} \<and> relationAfter \<notin> {''child'', ''sibling''} \<longrightarrow>
      transformPointRelativeToCanvas point canvas relationBefore relationAfter =
        Inl (Error (''fabric.js: received bad argument '' @ relationAfter)))"
  by (auto simp: transformPointRelativeToCanvas_def ObjectRelation_child_def
      ObjectRelation_sibling_def)

theorem transformPointRelativeToCanvas_bad_relation_witness:
  "''parent'' \<notin> {''child'', ''sibling''}
   \<and> transformPointRelativeToCanvas (Point 1 2) \<lparr>viewportTransform = TMat2D 2 0 0 2 10 10\<rparr>
         ''parent'' ''child'' = Inl (Error ''fabric.js: received bad argument parent'')
   \<and> ''sibling'' \<in> {''child'', ''sibling''} \<and> '''' \<notin> {''child'', ''sibling''}
   \<and> transformPointRelativeToCanvas (Point 1 2) \<lparr>viewportTransform = TMat2D 2 0 0 2 10 10\<rparr>
         ''sibling'' '''' = Inl (Error ''fabric.js: received bad argument '')"
  using transformPointRelativeToCanvas_bad_relation
          [of "''parent''" "Point 1 2" "\<lparr>viewportTransform = TMat2D 2 0 0 2 10 10\<rparr>" "''child''"]
        transformPointRelativeToCanvas_bad_relation
          [of "''sibling''" "Point 1 2" "\<lparr>viewportTransform = TMat2D 2 0 0 2 10 10\<rparr>" "''''"]
  by simp

text \<open>
  C6: for a relation \<open>R\<close> among \<open>child\<close> and \<open>sibling\<close>, whatever the point and the canvas
  (also a canvas with a singular viewport transform),
  \<open>transformPointRelativeToCanvas(p, canvas, R, R)\<close> returns \<open>p\<close> itself.
\<close>

theorem transformPointRelativeToCanvas_same_relation:
  assumes "R \<in> {''child'', ''sibling''}"
  shows "transformPointRelativeToCanvas p canvas R R = Inr (Some p)"
  using assms
  by (auto simp: transformPointRelativeToCanvas_def ObjectRelation_child_def
      ObjectRelation_sibling_def)

theorem transformPointRelativeToCanvas_same_relation_witness:
  "''sibling'' \<in> {''child'', ''sibling''}
   \<and> transformPointRelativeToCanvas (Point 3 4) \<lparr>viewportTransform = TMat2D 0 0 0 0 0 0\<rparr>
         ''sibling'' ''sibling'' = Inr (Some (Point 3 4))"
  using transformPointRelativeToCanvas_same_relation
          [of "''sibling''" "Point 3 4" "\<lparr>viewportTransform = TMat2D 0 0 0 0 0 0\<rparr>"]
  by simp

text \<open>
  C7: from \<open>sibling\<close> to \<open>child\<close> the point is transformed by the inverse of the canvas's
  \<open>viewportTransform\<close> (undefined where that inverse is); from \<open>child\<close> to \<open>sibling\<close> it is
  transformed by \<open>viewportTransform\<close> itself.  These two are the only pairs of valid,
  different relations.
\<close>

theorem transformPointRelativeToCanvas_change_relation:
  "transformPointRelativeToCanvas p canvas ''sibling'' ''child'' =
     Inr (map_option (transform p) (invertTransform (viewportTransform canvas)))
   \<and> transformPointRelativeToCanvas p canvas ''child'' ''sibling'' =
     Inr (Some (transform p (viewportTransform canvas)))"
  by (simp add: transformPointRelativeToCanvas_def ObjectRelation_child_def
      ObjectRelation_sibling_def)

section \<open>sendObjectToPlane\<close>

lemma orZero_map_option: "orZero (map_option (\<lambda>r. getTotalAngle (s r)) node) = planeAngle s node"
  by (cases node) (simp_all add: orZero_def planeAngle_def)

lemma calcPlaneChangeMatrix_planes:
  "calcPlaneChangeMatrix (map_option (\<lambda>r. calcTransformMatrix (s r)) from)
     (map_option (\<lambda>r. calcTransformMatrix (s r)) to) =
   calcPlaneChangeMatrix (Some (plane s from)) (Some (plane s to))"
  by (cases "from"; cases to) (simp_all add: calcPlaneChangeMatrix_def orDefault_def plane_def)

lemma sendObjectToPlane_resolved:
  "sendObjectToPlane s object args =
     (let from = (if length args = 2 then argument args 0 else group (s object));
          to = (if length args = 2 then argument args 1 else argument args 0);
          a = angle (s object) - planeAngle s from + planeAngle s to
      in map_option
           (\<lambda>t. (applyTransformToObject s object
                    (multiplyTransformMatrices t (calcOwnMatrix (s object))) a, t, a))
           (calcPlaneChangeMatrix (Some (plane s from)) (Some (plane s to))))"
  by (simp add: sendObjectToPlane_def Let_def orZero_map_option calcPlaneChangeMatrix_planes)

lemma sendObjectToPlane_three_arguments:
  "sendObjectToPlane s object [from, to] =
     map_option
       (\<lambda>t. (applyTransformToObject s object
                (multiplyTransformMatrices t (calcOwnMatrix (s object)))
                (angle (s object) - planeAngle s from + planeAngle s to),
              t, angle (s object) - planeAngle s from + planeAngle s to))
       (calcPlaneChangeMatrix (Some (plane s from)) (Some (plane s to)))"
  by (simp add: sendObjectToPlane_resolved argument_def Let_def)

lemma sendObjectToPlane_two_arguments:
  "sendObjectToPlane s object [to] = sendObjectToPlane s object [group (s object), to]"
  by (simp add: sendObjectToPlane_resolved argument_def Let_def)

lemma sendObjectToPlane_one_argument:
  "sendObjectToPlane s object [] = sendObjectToPlane s object [group (s object), None]"
  by (simp add: sendObjectToPlane_resolved argument_def Let_def)

lemmas scene_simps =
  exampleScene_def plane_def planeAngle_def calcTransformMatrix_def getTotalAngle_def
  calcOwnMatrix_def iMatrix_def

text \<open>
  C1: called with \<open>object\<close>, \<open>from\<close> and \<open>to\<close> (either may be absent),
  \<open>sendObjectToPlane\<close> computes \<open>M = calcPlaneChangeMatrix\<close> of the two nodes' cumulative
  transforms, the identity standing for an absent node; the new angle is the object's
  angle minus the cumulative angle of \<open>from\<close> plus that of \<open>to\<close>, 0 standing for an
  absent node; the object's local matrix becomes \<open>multiply(M, ownMatrix)\<close> and its angle
  the new angle, in the store; and \<open>M\<close> and the new angle are returned.  The call is
  undefined exactly where \<open>M\<close> is.  Called with \<open>object\<close> and \<open>to\<close> only, it does what
  the three-argument call does with the object's group as \<open>from\<close>.
\<close>

theorem sendObjectToPlane_computes:
  "sendObjectToPlane s object [from, to] =
     map_option
       (\<lambda>M. (s(object := (s object)
                 \<lparr>ownMatrix := multiplyTransformMatrices M (calcOwnMatrix (s object)),
                  angle := angle (s object) - planeAngle s from + planeAngle s to\<rparr>),
              M, angle (s object) - planeAngle s from + planeAngle s to))
       (calcPlaneChangeMatrix (Some (plane s from)) (Some (plane s to)))
   \<and> sendObjectToPlane s object [to] = sendObjectToPlane s object [group (s object), to]"
  by (simp add: sendObjectToPlane_three_arguments sendObjectToPlane_two_arguments
      applyTransformToObject_def)

theorem sendObjectToPlane_computes_witness:
  "sendObjectToPlane exampleScene 0 [None] =
     Some (exampleScene(0 := (exampleScene 0)\<lparr>ownMatrix := TMat2D 1 0 0 1 80 80, angle := 0\<rparr>),
           TMat2D 1 0 0 1 30 30, 0)"
  using sendObjectToPlane_computes [of exampleScene 0 "Some 1" None]
  by (simp add: scene_simps calcPlaneChangeMatrix_def orDefault_def)




text \<open>
  C9: whatever the arguments, a call that returns leaves every object of the store other
  than \<open>object\<close> as it was (so \<open>from\<close> and \<open>to\<close>, where they are other objects), and
  leaves the group reference of \<open>object\<close> as it was.
\<close>

theorem sendObjectToPlane_frame:
  assumes "sendObjectToPlane s object args = Some (s', result)"
  shows "(\<forall>r. r \<noteq> object \<longrightarrow> s' r = s r) \<and> group (s' object) = group (s object)"
  using assms
  by (auto simp: sendObjectToPlane_resolved Let_def applyTransformToObject_def)

theorem sendObjectToPlane_frame_witness:
  "sendObjectToPlane exampleScene 0 [Some 2] =
     Some (exampleScene(0 := (exampleScene 0)\<lparr>ownMatrix := TMat2D 0 (-1) 1 0 73 (-75), angle := 90\<rparr>),
           TMat2D 0 (-1) 1 0 23 (-25), 90)
   \<and> (exampleScene(0 := (exampleScene 0)\<lparr>ownMatrix := TMat2D 0 (-1) 1 0 73 (-75), angle := 90\<rparr>)) 1
       = exampleScene 1
   \<and> (exampleScene(0 := (exampleScene 0)\<lparr>ownMatrix := TMat2D 0 (-1) 1 0 73 (-75), angle := 90\<rparr>)) 2
       = exampleScene 2
   \<and> group ((exampleScene(0 := (exampleScene 0)\<lparr>ownMatrix := TMat2D 0 (-1) 1 0 73 (-75), angle := 90\<rparr>)) 0)
       = group (exampleScene 0)"
proof -
  have call: "sendObjectToPlane exampleScene 0 [Some 2] =
     Some (exampleScene(0 := (exampleScene 0)\<lparr>ownMatrix := TMat2D 0 (-1) 1 0 73 (-75), angle := 90\<rparr>),
           TMat2D 0 (-1) 1 0 23 (-25), 90)"
    by (simp add: sendObjectToPlane_two_arguments sendObjectToPlane_three_arguments
        applyTransformToObject_def calcPlaneChangeMatrix_def orDefault_def scene_simps)
  from sendObjectToPlane_frame [OF call] call show ?thesis
    by simp
qed

text \<open>
  C10: a call with two arguments takes the source plane from the object's group, also
  when the second argument is \<open>undefined\<close>; a call with three arguments whose \<open>from\<close> is
  \<open>undefined\<close> uses the identity as source plane and 0 as source angle, whatever the
  object's group; so, for an object whose group has a cumulative transform other than
  the identity, \<open>sendObjectToPlane(obj, undefined)\<close> and
  \<open>sendObjectToPlane(obj, undefined, undefined)\<close> return different results.
\<close>

theorem sendObjectToPlane_argument_count:
  "sendObjectToPlane s object [to] = sendObjectToPlane s object [group (s object), to]
   \<and> map_option snd (sendObjectToPlane s object [None, to]) =
       map_option (\<lambda>M. (M, angle (s object) + planeAngle s to))
         (calcPlaneChangeMatrix None (Some (plane s to)))
   \<and> (group (s object) = Some g \<and> calcTransformMatrix (s g) \<noteq> iMatrix \<longrightarrow>
        map_option snd (sendObjectToPlane s object [None]) \<noteq>
        map_option snd (sendObjectToPlane s object [None, None]))"
  by (auto simp: sendObjectToPlane_two_arguments sendObjectToPlane_three_arguments
      calcPlaneChangeMatrix_def orDefault_def plane_def planeAngle_def invertTransform_iMatrix
      multiply_iMatrix_left option.map_comp comp_def)

theorem sendObjectToPlane_argument_count_witness:
  "group (exampleScene 0) = Some 1 \<and> calcTransformMatrix (exampleScene 1) \<noteq> iMatrix
   \<and> map_option snd (sendObjectToPlane exampleScene 0 [None]) = Some (TMat2D 1 0 0 1 30 30, 0)
   \<and> map_option snd (sendObjectToPlane exampleScene 0 [None, None]) = Some (TMat2D 1 0 0 1 0 0, 0)
   \<and> map_option snd (sendObjectToPlane exampleScene 0 [None]) \<noteq>
       map_option snd (sendObjectToPlane exampleScene 0 [None, None])"
proof -
  have g: "group (exampleScene 0) = Some 1"
    by (simp add: exampleScene_def)
  have p: "calcTransformMatrix (exampleScene 1) \<noteq> iMatrix"
    by (simp add: scene_simps)
  have two: "map_option snd (sendObjectToPlane exampleScene 0 [None]) = Some (TMat2D 1 0 0 1 30 30, 0)"
    by (simp add: sendObjectToPlane_two_arguments sendObjectToPlane_three_arguments
        calcPlaneChangeMatrix_def orDefault_def option.map_comp comp_def scene_simps)
  have three: "map_option snd (sendObjectToPlane exampleScene 0 [None, None]) = Some (TMat2D 1 0 0 1 0 0, 0)"
    by (simp add: sendObjectToPlane_three_arguments
        calcPlaneChangeMatrix_def orDefault_def option.map_comp comp_def scene_simps)
  have differ: "map_option snd (sendObjectToPlane exampleScene 0 [None]) \<noteq>
      map_option snd (sendObjectToPlane exampleScene 0 [None, None])"
    using sendObjectToPlane_argument_count [of exampleScene 0 None 1] g p by blast
  from g p two three differ show ?thesis
    by blast
qed


end
